theory Spec2Isabelle
  imports Complex_Main "HOL-Library.Sublist" "HOL-Library.Multiset" "HOL-Library.Monad_Syntax"
begin

section \<open>Data model (src/lib/types.ts)\<close>

text \<open>
  A JavaScript string is a sequence of UTF-16 code units; \<open>length\<close>, \<open>indexOf\<close> and
  \<open>substring\<close> count code units.  Names and dates of games are kept in that form, so that
  the en dash (code unit 8211) of the heuristic matcher is one element.  File paths and
  property names, which are constants of the code, are HOL strings.
\<close>

type_synonym jsstring = "nat list"

definition js :: "string \<Rightarrow> jsstring" where
  "js s = map of_char s"

text \<open>\<open>Game\<close>: the fields that the modelled functions read.\<close>

record Game =
  bggId :: int
  name :: jsstring
  dateAdded :: jsstring
  playCount :: nat
  lastPlayed :: "jsstring option"
  userRating :: "rat option"

record ExpansionLink =
  link_bggId :: int
  link_name :: jsstring

record BoxDimensions =
  width :: rat
  length_d :: rat
  depth :: rat
  volume :: rat

type_synonym expansion_cache = "int \<rightharpoonup> ExpansionLink list"
type_synonym dimension_cache = "int \<rightharpoonup> BoxDimensions"

section \<open>The runtime outside the repository\<close>

text \<open>
  The file system, as far as the two cache modules touch it: the directories that exist, the
  contents of the files, and the journal of the mutating calls in the order they were made.
  \<open>mkdirSync\<close> and \<open>writeFileSync\<close> are taken to succeed; \<open>readFileSync\<close> gives
  \<open>None\<close> where it throws.
\<close>

type_synonym path = string

datatype fs_call =
    Mkdir path
  | WriteFile path jsstring
  | Rename path path

record filesystem =
  dirs :: "path set"
  files :: "path \<rightharpoonup> jsstring"
  journal :: "fs_call list"

definition existsSync :: "filesystem \<Rightarrow> path \<Rightarrow> bool" where
  "existsSync fs p \<longleftrightarrow> p \<in> dirs fs \<or> files fs p \<noteq> None"

definition readFileSync :: "filesystem \<Rightarrow> path \<Rightarrow> jsstring option" where
  "readFileSync fs p = files fs p"

definition mkdirSync :: "path \<Rightarrow> filesystem \<Rightarrow> filesystem" where
  "mkdirSync p fs = fs\<lparr>dirs := insert p (dirs fs), journal := journal fs @ [Mkdir p]\<rparr>"

definition writeFileSync :: "path \<Rightarrow> jsstring \<Rightarrow> filesystem \<Rightarrow> filesystem" where
  "writeFileSync p content fs =
     fs\<lparr>files := (files fs)(p \<mapsto> content), journal := journal fs @ [WriteFile p content]\<rparr>"

definition rename :: "path \<Rightarrow> path \<Rightarrow> filesystem \<Rightarrow> filesystem" where
  "rename src dst fs =
     fs\<lparr>files := (files fs)(dst := files fs src, src := None),
       journal := journal fs @ [Rename src dst]\<rparr>"

text \<open>
  \<open>JSON.stringify(cache, null, '\t')\<close> and \<open>JSON.parse\<close> belong to the runtime; they are
  parameters of the model.  \<open>parse\<close> gives \<open>None\<close> where \<open>JSON.parse\<close> throws.
\<close>

record 'c json =
  stringify :: "'c \<Rightarrow> jsstring"
  parse :: "jsstring \<Rightarrow> 'c option"

text \<open>
  One answer of \<open>fetch\<close>: a response with its status and body, or a rejected promise.  The
  catalog service is an oracle that gives the answer to the n-th request of a module.
\<close>

datatype http_response = Response (status: nat) (body: jsstring) | NetworkError

type_synonym service = "nat \<Rightarrow> http_response"

text \<open>
  What a module has done to the outside so far: its view of the file system, the batches it
  has requested and the delays (in milliseconds) it has awaited.
\<close>

record outside =
  fs :: filesystem
  requests :: "int list list"
  sleeps :: "nat list"

text \<open>
  A batch fetch returns a mapping, returns \<open>null\<close> (status 401), or throws because
  \<open>fetch\<close> was rejected.
\<close>

datatype 'c batch_result = Batch 'c | Null | Thrown

section \<open>src/lib/server/expansion-cache.ts: state and status\<close>

datatype sync_method = Api | NameMatch | NoMethod

record expansion_state = outside +
  expansionCache :: expansion_cache
  fetchInProgress :: bool
  fetchedCount :: nat
  totalToFetch :: nat
  usedMethod :: sync_method

definition DATA_DIR :: path where
  "DATA_DIR = ''data''"

definition exp_CACHE_PATH :: path where
  "exp_CACHE_PATH = ''data/expansion-links.json''"

definition BATCH_SIZE :: nat where
  "BATCH_SIZE = 15"

definition exp_DELAY_BETWEEN_BATCHES_MS :: nat where
  "exp_DELAY_BETWEEN_BATCHES_MS = 2500"

definition ensureDir :: "filesystem \<Rightarrow> filesystem" where
  "ensureDir f = (if \<not> existsSync f DATA_DIR then mkdirSync DATA_DIR f else f)"

definition exp_loadCache :: "expansion_cache json \<Rightarrow> expansion_state \<Rightarrow> expansion_state" where
  "exp_loadCache J s =
     (if existsSync (fs s) exp_CACHE_PATH then
        (case readFileSync (fs s) exp_CACHE_PATH of
           None \<Rightarrow> s\<lparr>expansionCache := Map.empty\<rparr>
         | Some raw \<Rightarrow>
             (case parse J raw of
                Some c \<Rightarrow> s\<lparr>expansionCache := c\<rparr>
              | None \<Rightarrow> s\<lparr>expansionCache := Map.empty\<rparr>))
      else s)"

definition exp_saveCache :: "expansion_cache json \<Rightarrow> expansion_state \<Rightarrow> expansion_state" where
  "exp_saveCache J s =
     s\<lparr>fs := writeFileSync exp_CACHE_PATH (stringify J (expansionCache s)) (ensureDir (fs s))\<rparr>"

definition getCachedExpansions ::
  "expansion_cache json \<Rightarrow> expansion_state \<Rightarrow> expansion_cache \<times> expansion_state" where
  "getCachedExpansions J s =
     (let s' = (if card (dom (expansionCache s)) = 0 then exp_loadCache J s else s)
      in (expansionCache s', s'))"

text \<open>
  A status object is the object literal the function returns: its property names with their
  values, in the order written.
\<close>

datatype status_value = VBool bool | VNum nat | VMethod sync_method

type_synonym status_object = "(string \<times> status_value) list"

definition exp_getFetchStatus :: "expansion_state \<Rightarrow> status_object" where
  "exp_getFetchStatus s =
     [(''inProgress'', VBool (fetchInProgress s)),
      (''fetched'', VNum (fetchedCount s)),
      (''total'', VNum (totalToFetch s)),
      (''cached'', VNum (card (dom (expansionCache s)))),
      (''method'', VMethod (usedMethod s))]"

section \<open>The heuristic matcher: analyzeByNamePrefix\<close>

text \<open>
  \<open>toLowerCase\<close> on the code units A to Z; a code unit outside ASCII is left as it is (the
  runtime lowers those through tables that are not part of the repository).
\<close>

definition toLowerCase :: "jsstring \<Rightarrow> jsstring" where
  "toLowerCase s = map (\<lambda>c. if 65 \<le> c \<and> c \<le> 90 then c + 32 else c) s"

definition isWhiteSpace :: "nat \<Rightarrow> bool" where
  "isWhiteSpace c \<longleftrightarrow>
     c \<in> set [9, 10, 11, 12, 13, 32, 160, 5760, 8232, 8233, 8239, 8287, 12288, 65279]
     \<or> (8192 \<le> c \<and> c \<le> 8202)"

definition trim :: "jsstring \<Rightarrow> jsstring" where
  "trim s = rev (dropWhile isWhiteSpace (rev (dropWhile isWhiteSpace s)))"

text \<open>\<open>s.indexOf(sep)\<close>: the first position where \<open>sep\<close> starts, or -1.\<close>

fun indexOf_from :: "nat \<Rightarrow> jsstring \<Rightarrow> jsstring \<Rightarrow> int" where
  "indexOf_from i [] sep = (if sep = [] then int i else - 1)"
| "indexOf_from i (c # cs) sep =
     (if prefix sep (c # cs) then int i else indexOf_from (Suc i) cs sep)"

definition indexOf :: "jsstring \<Rightarrow> jsstring \<Rightarrow> int" where
  "indexOf s sep = indexOf_from 0 s sep"

definition substring :: "jsstring \<Rightarrow> nat \<Rightarrow> nat \<Rightarrow> jsstring" where
  "substring s a b = take (b - a) (drop a s)"

text \<open>
  \<open>prefixGroups\<close> is a \<open>Map\<close> that the second loop iterates in insertion order: a list of
  entries.  \<open>push_group\<close> is \<open>if (!has(prefix)) set(prefix, []); get(prefix).push(game)\<close>.
\<close>

type_synonym prefix_groups = "(jsstring \<times> Game list) list"

definition push_group :: "jsstring \<Rightarrow> Game \<Rightarrow> prefix_groups \<Rightarrow> prefix_groups" where
  "push_group p game groups =
     (if map_of groups p = None then groups @ [(p, [game])]
      else map (\<lambda>(q, gs). if q = p then (q, gs @ [game]) else (q, gs)) groups)"

text \<open>The body of the first loop, on the pair (\<open>nameToGame\<close>, \<open>prefixGroups\<close>).\<close>

definition collect_game ::
  "Game \<Rightarrow> (jsstring \<rightharpoonup> Game) \<times> prefix_groups \<Rightarrow> (jsstring \<rightharpoonup> Game) \<times> prefix_groups" where
  "collect_game game acc =
     (let nameToGame = (fst acc)(toLowerCase (name game) \<mapsto> game);
          prefixGroups = snd acc;
          colonIdx = indexOf (name game) [58];
          dashIdx = indexOf (name game) [32, 8211, 32];
          hyphenIdx = indexOf (name game) [32, 45, 32];
          separators = filter (\<lambda>i. i > 0) [colonIdx, dashIdx, hyphenIdx]
      in case separators of
           [] \<Rightarrow> (nameToGame, prefixGroups)
         | i # rest \<Rightarrow>
             (let splitAt = fold min rest i;
                  p = toLowerCase (trim (substring (name game) 0 (nat splitAt)))
              in if length p < 3 then (nameToGame, prefixGroups)
                 else (nameToGame, push_group p game prefixGroups)))"

definition link_to :: "Game \<Rightarrow> ExpansionLink" where
  "link_to g = \<lparr>link_bggId = bggId g, link_name = name g\<rparr>"

text \<open>
  The body of the second loop.  \<open>Array.prototype.sort\<close> is stable, so \<open>sorted[0]\<close> is the
  first game of the group among those with the shortest name.
\<close>

definition flag_group ::
  "(jsstring \<rightharpoonup> Game) \<Rightarrow> jsstring \<times> Game list \<Rightarrow> expansion_cache \<Rightarrow> expansion_cache" where
  "flag_group nameToGame entry result =
     (let p = fst entry; groupGames = snd entry
      in if length groupGames < 2 then
           (case groupGames of
              [] \<Rightarrow> result
            | g0 # _ \<Rightarrow>
                (case nameToGame p of
                   None \<Rightarrow> result
                 | Some bareBase \<Rightarrow>
                     if bggId bareBase \<noteq> bggId g0 then result(bggId g0 \<mapsto> [link_to bareBase])
                     else result))
         else
           (let baseGame =
                  (case nameToGame p of
                     Some bareBase \<Rightarrow> bareBase
                   | None \<Rightarrow> hd (sort_key (\<lambda>g. length (name g)) groupGames))
            in fold (\<lambda>game res.
                       if bggId game = bggId baseGame then res
                       else res(bggId game \<mapsto> [link_to baseGame]))
                    groupGames result))"

definition analyzeByNamePrefix :: "Game list \<Rightarrow> expansion_cache" where
  "analyzeByNamePrefix games =
     (let acc = fold collect_game games (Map.empty, [])
      in fold (flag_group (fst acc)) (snd acc) Map.empty)"

section \<open>The expansion response parser and catalog client\<close>

text \<open>
  The regular expressions, \<open>parseInt\<close> and \<open>parseFloat\<close> are run by the runtime; the model
  takes what they return.  \<open>gameRegex\<close> and \<open>linkRegex\<close> give the capture groups 1 and 2 of
  the successive matches, \<open>versionRegex\<close> the capture group 1 of the successive matches,
  the others the capture group 1 of the first match.  \<open>parseFloat\<close> gives \<open>None\<close> for NaN.
  The product and the quotient of two doubles are rounded by the runtime: \<open>double_times\<close>
  and \<open>double_divide\<close> are its \<open>*\<close> and \<open>/\<close>.
\<close>

record runtime =
  gameRegex :: "jsstring \<Rightarrow> (jsstring \<times> jsstring) list"
  linkRegex :: "jsstring \<Rightarrow> (jsstring \<times> jsstring) list"
  versionsRegex :: "jsstring \<Rightarrow> jsstring option"
  versionRegex :: "jsstring \<Rightarrow> jsstring list"
  widthRegex :: "jsstring \<Rightarrow> jsstring option"
  lengthRegex :: "jsstring \<Rightarrow> jsstring option"
  depthRegex :: "jsstring \<Rightarrow> jsstring option"
  parseInt :: "jsstring \<Rightarrow> int"
  parseFloat :: "jsstring \<Rightarrow> rat option"
  double_times :: "rat \<Rightarrow> rat \<Rightarrow> rat"
  double_divide :: "rat \<Rightarrow> rat \<Rightarrow> rat"

definition parseExpansionXml :: "runtime \<Rightarrow> jsstring \<Rightarrow> expansion_cache" where
  "parseExpansionXml X xml =
     fold (\<lambda>gameMatch result.
             result(parseInt X (fst gameMatch) \<mapsto>
               map (\<lambda>linkMatch. \<lparr>link_bggId = parseInt X (fst linkMatch),
                                 link_name = snd linkMatch\<rparr>)
                   (linkRegex X (snd gameMatch))))
          (gameRegex X xml) Map.empty"

definition backoff :: "nat list" where
  "backoff = [2000, 4000, 8000]"

text \<open>
  The loop of \<open>fetchBatchExpansions\<close> from a given \<open>attempt\<close>.  Each \<open>fetch\<close> appends the
  batch to \<open>requests\<close> and takes the next answer of the service; each \<open>delay\<close> appends its
  milliseconds to \<open>sleeps\<close>.
\<close>

function fetchBatchExpansions_from ::
  "runtime \<Rightarrow> service \<Rightarrow> int list \<Rightarrow> nat \<Rightarrow> 'a outside_scheme
   \<Rightarrow> expansion_cache batch_result \<times> 'a outside_scheme" where
  "fetchBatchExpansions_from X net ids attempt s =
     (if attempt \<le> length backoff then
        (let response = net (length (requests s));
             s1 = s\<lparr>requests := requests s @ [ids]\<rparr>
         in case response of
              NetworkError \<Rightarrow> (Thrown, s1)
            | Response st xml \<Rightarrow>
                if st = 200 then (Batch (parseExpansionXml X xml), s1)
                else if st = 401 then (Null, s1)
                else if st = 202 \<and> attempt < length backoff then
                  fetchBatchExpansions_from X net ids (attempt + 1)
                    (s1\<lparr>sleeps := sleeps s1 @ [backoff ! attempt]\<rparr>)
                else (Batch Map.empty, s1))
      else (Batch Map.empty, s))"
  by pat_completeness auto
termination
  by (relation "measure (\<lambda>(X, net, ids, attempt, s). Suc (length backoff) - attempt)") auto

definition fetchBatchExpansions ::
  "runtime \<Rightarrow> service \<Rightarrow> int list \<Rightarrow> 'a outside_scheme
   \<Rightarrow> expansion_cache batch_result \<times> 'a outside_scheme" where
  "fetchBatchExpansions X net ids s = fetchBatchExpansions_from X net ids 0 s"

section \<open>The expansion sync coordinator: startBackgroundFetch\<close>

text \<open>
  \<open>startBackgroundFetch\<close> has a synchronous part, which ends by launching the asynchronous
  function, and the asynchronous function itself.  The synchronous part returns the state
  and the run it launched, if any: the arguments and \<open>needed\<close>, which the asynchronous
  function closes over.
\<close>

record expansion_run =
  run_bggIds :: "int list"
  run_games :: "Game list option"
  run_needed :: "int list"

definition exp_startBackgroundFetch ::
  "expansion_cache json \<Rightarrow> int list \<Rightarrow> Game list option \<Rightarrow> expansion_state
   \<Rightarrow> expansion_state \<times> expansion_run option" where
  "exp_startBackgroundFetch J bggIds games s =
     (if fetchInProgress s then (s, None)
      else
        (let s1 = exp_loadCache J s;
             needed = filter (\<lambda>id. expansionCache s1 id = None) bggIds
         in if length needed = 0 then (s1, None)
            else (s1\<lparr>fetchInProgress := True, fetchedCount := 0,
                      totalToFetch := length needed\<rparr>,
                  Some \<lparr>run_bggIds = bggIds, run_games = games, run_needed = needed\<rparr>)))"

text \<open>
  The loop over \<open>remaining\<close>, from index \<open>i\<close>.  A thrown batch leaves the loop for the
  \<open>catch\<close> block, which only logs, a \<open>null\<close> batch leaves it by \<open>break\<close>: both go on to
  the \<open>finally\<close> block with the state as it is.
\<close>

function exp_remaining_batches ::
  "expansion_cache json \<Rightarrow> runtime \<Rightarrow> service \<Rightarrow> int list \<Rightarrow> nat \<Rightarrow> expansion_state
   \<Rightarrow> expansion_state" where
  "exp_remaining_batches J X net remaining i s =
     (if i < length remaining then
        (let batch = take BATCH_SIZE (drop i remaining);
             r = fetchBatchExpansions X net batch s
         in case fst r of
              Thrown \<Rightarrow> snd r
            | Null \<Rightarrow> snd r
            | Batch links \<Rightarrow>
                (let s1 = (snd r)\<lparr>expansionCache := expansionCache (snd r) ++ links\<rparr>;
                     s2 = s1\<lparr>fetchedCount :=
                               BATCH_SIZE + min (i + BATCH_SIZE) (length remaining)\<rparr>;
                     s3 = exp_saveCache J s2;
                     s4 = (if i + BATCH_SIZE < length remaining
                           then s3\<lparr>sleeps := sleeps s3 @ [exp_DELAY_BETWEEN_BATCHES_MS]\<rparr>
                           else s3)
                 in exp_remaining_batches J X net remaining (i + BATCH_SIZE) s4))
      else s)"
  by pat_completeness auto
termination
  by (relation "measure (\<lambda>(J, X, net, remaining, i, s). length remaining - i)")
     (auto simp: BATCH_SIZE_def)

text \<open>\<open>for (const id of bggIds) expansionCache[id] = nameMatches[id] ?? []\<close>\<close>

definition merge_nameMatches ::
  "expansion_cache \<Rightarrow> int list \<Rightarrow> expansion_cache \<Rightarrow> expansion_cache" where
  "merge_nameMatches nameMatches bggIds cache =
     fold (\<lambda>id c. c(id \<mapsto> (case nameMatches id of None \<Rightarrow> [] | Some links \<Rightarrow> links)))
          bggIds cache"

text \<open>\<open>needed.slice(0, Math.min(BATCH_SIZE, needed.length))\<close>\<close>

definition testBatch :: "int list \<Rightarrow> int list" where
  "testBatch needed = take (min BATCH_SIZE (length needed)) needed"

text \<open>The asynchronous function, run to its end: \<open>try\<close>, \<open>catch\<close> and \<open>finally\<close>.\<close>

definition exp_background ::
  "expansion_cache json \<Rightarrow> runtime \<Rightarrow> service \<Rightarrow> expansion_run \<Rightarrow> expansion_state
   \<Rightarrow> expansion_state" where
  "exp_background J X net run s =
     (let needed = run_needed run;
          r = fetchBatchExpansions X net (testBatch needed) s;
          s1 = snd r;
          tried =
            (case fst r of
               Thrown \<Rightarrow> s1
             | Null \<Rightarrow>
                 (let s2 =
                        (case run_games run of
                           None \<Rightarrow> s1
                         | Some games \<Rightarrow>
                             if length games > 0 then
                               s1\<lparr>expansionCache :=
                                     merge_nameMatches (analyzeByNamePrefix games)
                                       (run_bggIds run) (expansionCache s1),
                                   usedMethod := NameMatch\<rparr>
                             else s1)
                  in exp_saveCache J (s2\<lparr>fetchedCount := totalToFetch s2\<rparr>))
             | Batch testResult \<Rightarrow>
                 (let s2 = s1\<lparr>usedMethod := Api\<rparr>;
                      s3 = s2\<lparr>expansionCache := expansionCache s2 ++ testResult\<rparr>;
                      s4 = exp_saveCache J (s3\<lparr>fetchedCount := length (testBatch needed)\<rparr>)
                  in exp_remaining_batches J X net (drop BATCH_SIZE needed) 0 s4))
      in exp_saveCache J (tried\<lparr>fetchInProgress := False\<rparr>))"

text \<open>
  The module in its process.  Its variables start as the declarations initialise them.  A
  start request runs the synchronous part and may launch a run; a launched run, suspended at
  its awaits, holds \<open>fetchInProgress\<close> until its \<open>finally\<close> block and is taken in one step
  when it ends; a status request reads the cache through \<open>getCachedExpansions\<close>.
\<close>

definition exp_initial :: "filesystem \<Rightarrow> expansion_state" where
  "exp_initial f =
     \<lparr>fs = f, requests = [], sleeps = [], expansionCache = Map.empty,
      fetchInProgress = False, fetchedCount = 0, totalToFetch = 0, usedMethod = NoMethod\<rparr>"

definition launched :: "'r option \<Rightarrow> 'r list" where
  "launched r = (case r of None \<Rightarrow> [] | Some x \<Rightarrow> [x])"

inductive exp_process ::
  "expansion_cache json \<Rightarrow> runtime \<Rightarrow> service \<Rightarrow> expansion_state \<times> expansion_run list \<Rightarrow> bool"
  for J X net where
  exp_boot: "exp_process J X net (exp_initial f, [])"
| exp_start:
    "exp_process J X net (s, active) \<Longrightarrow>
     exp_process J X net
       (fst (exp_startBackgroundFetch J bggIds games s),
        active @ launched (snd (exp_startBackgroundFetch J bggIds games s)))"
| exp_finish:
    "exp_process J X net (s, active) \<Longrightarrow> run \<in> set active \<Longrightarrow>
     exp_process J X net (exp_background J X net run s, remove1 run active)"
| exp_read:
    "exp_process J X net (s, active) \<Longrightarrow>
     exp_process J X net (snd (getCachedExpansions J s), active)"

section \<open>src/lib/server/dimension-cache.ts: state and status\<close>

record dimension_state = outside +
  dimensionCache :: dimension_cache
  dim_fetchInProgress :: bool
  dim_fetchedCount :: nat
  dim_totalToFetch :: nat

definition dim_CACHE_PATH :: path where
  "dim_CACHE_PATH = ''data/dimensions.json''"

definition dim_DELAY_BETWEEN_BATCHES_MS :: nat where
  "dim_DELAY_BETWEEN_BATCHES_MS = 2000"

definition dim_loadCache :: "dimension_cache json \<Rightarrow> dimension_state \<Rightarrow> dimension_state" where
  "dim_loadCache J s =
     (if existsSync (fs s) dim_CACHE_PATH then
        (case readFileSync (fs s) dim_CACHE_PATH of
           None \<Rightarrow> s\<lparr>dimensionCache := Map.empty\<rparr>
         | Some raw \<Rightarrow>
             (case parse J raw of
                Some c \<Rightarrow> s\<lparr>dimensionCache := c\<rparr>
              | None \<Rightarrow> s\<lparr>dimensionCache := Map.empty\<rparr>))
      else s)"

definition dim_saveCache :: "dimension_cache json \<Rightarrow> dimension_state \<Rightarrow> dimension_state" where
  "dim_saveCache J s =
     s\<lparr>fs := writeFileSync dim_CACHE_PATH (stringify J (dimensionCache s)) (ensureDir (fs s))\<rparr>"

definition dim_getFetchStatus :: "dimension_state \<Rightarrow> status_object" where
  "dim_getFetchStatus s =
     [(''inProgress'', VBool (dim_fetchInProgress s)),
      (''fetched'', VNum (dim_fetchedCount s)),
      (''total'', VNum (dim_totalToFetch s)),
      (''cached'', VNum (card (dom (dimensionCache s))))]"

section \<open>The dimension response parser and catalog client\<close>

text \<open>
  A measurement is a double.  A finite double is a rational number, and the model keeps it
  as that number; NaN is \<open>None\<close>, and the infinities are left out.  \<open>Math.round(x)\<close> is the
  integer \<open>\<lfloor>x + 1/2\<rfloor>\<close>, which is exact on doubles; \<open>*\<close> and \<open>/\<close> round, and are
  taken from the runtime.
\<close>

definition Math_round :: "rat \<Rightarrow> rat" where
  "Math_round x = of_int (round x)"

text \<open>
  \<open>parseFloat(vInner.match(rx)?.[1] ?? '0')\<close>: without a match the text is \<open>'0'\<close>, which
  \<open>parseFloat\<close> reads as 0.
\<close>

definition measurement ::
  "runtime \<Rightarrow> (jsstring \<Rightarrow> jsstring option) \<Rightarrow> jsstring \<Rightarrow> rat option" where
  "measurement X rx vInner = (case rx vInner of None \<Rightarrow> Some 0 | Some v \<Rightarrow> parseFloat X v)"

text \<open>A comparison with NaN is false.\<close>

definition positive :: "rat option \<Rightarrow> bool" where
  "positive x = (case x of None \<Rightarrow> False | Some v \<Rightarrow> v > 0)"

text \<open>
  The record of a version: \<open>Math.round(width * 100) / 100\<close> and so on; the volume is
  \<open>Math.round(width * length * depth * 100) / 100\<close>, the products taken from the left.
\<close>

definition box_of :: "runtime \<Rightarrow> rat \<Rightarrow> rat \<Rightarrow> rat \<Rightarrow> BoxDimensions" where
  "box_of X w l d =
     \<lparr>width = double_divide X (Math_round (double_times X w 100)) 100,
      length_d = double_divide X (Math_round (double_times X l 100)) 100,
      depth = double_divide X (Math_round (double_times X d 100)) 100,
      volume =
        double_divide X
          (Math_round (double_times X (double_times X (double_times X w l) d) 100)) 100\<rparr>"

text \<open>The inner loop over the version items: the first one with real dimensions wins.\<close>

fun first_version :: "runtime \<Rightarrow> jsstring list \<Rightarrow> BoxDimensions option" where
  "first_version X [] = None"
| "first_version X (vInner # rest) =
     (let w = measurement X (widthRegex X) vInner;
          l = measurement X (lengthRegex X) vInner;
          d = measurement X (depthRegex X) vInner
      in if positive w \<and> positive l \<and> positive d
         then Some (box_of X (the w) (the l) (the d))
         else first_version X rest)"

definition parseDimensionsXml :: "runtime \<Rightarrow> jsstring \<Rightarrow> dimension_cache" where
  "parseDimensionsXml X xml =
     fold (\<lambda>gameMatch result.
             case versionsRegex X (snd gameMatch) of
               None \<Rightarrow> result
             | Some versions \<Rightarrow>
                 (case first_version X (versionRegex X versions) of
                    None \<Rightarrow> result
                  | Some box \<Rightarrow> result(parseInt X (fst gameMatch) \<mapsto> box)))
          (gameRegex X xml) Map.empty"

function fetchBatchDimensions_from ::
  "runtime \<Rightarrow> service \<Rightarrow> int list \<Rightarrow> nat \<Rightarrow> 'a outside_scheme
   \<Rightarrow> dimension_cache batch_result \<times> 'a outside_scheme" where
  "fetchBatchDimensions_from X net ids attempt s =
     (if attempt \<le> length backoff then
        (let response = net (length (requests s));
             s1 = s\<lparr>requests := requests s @ [ids]\<rparr>
         in case response of
              NetworkError \<Rightarrow> (Thrown, s1)
            | Response st xml \<Rightarrow>
                if st = 200 then (Batch (parseDimensionsXml X xml), s1)
                else if st = 401 then (Null, s1)
                else if st = 202 \<and> attempt < length backoff then
                  fetchBatchDimensions_from X net ids (attempt + 1)
                    (s1\<lparr>sleeps := sleeps s1 @ [backoff ! attempt]\<rparr>)
                else (Batch Map.empty, s1))
      else (Batch Map.empty, s))"
  by pat_completeness auto
termination
  by (relation "measure (\<lambda>(X, net, ids, attempt, s). Suc (length backoff) - attempt)") auto

definition fetchBatchDimensions ::
  "runtime \<Rightarrow> service \<Rightarrow> int list \<Rightarrow> 'a outside_scheme
   \<Rightarrow> dimension_cache batch_result \<times> 'a outside_scheme" where
  "fetchBatchDimensions X net ids s = fetchBatchDimensions_from X net ids 0 s"

section \<open>The dimension sync coordinator: startBackgroundFetch\<close>

record dimension_run =
  dim_run_bggIds :: "int list"
  dim_run_needed :: "int list"

definition dim_startBackgroundFetch ::
  "dimension_cache json \<Rightarrow> int list \<Rightarrow> dimension_state
   \<Rightarrow> dimension_state \<times> dimension_run option" where
  "dim_startBackgroundFetch J bggIds s =
     (if dim_fetchInProgress s then (s, None)
      else
        (let s1 = dim_loadCache J s;
             needed = filter (\<lambda>id. dimensionCache s1 id = None) bggIds
         in if length needed = 0 then (s1, None)
            else (s1\<lparr>dim_fetchInProgress := True, dim_fetchedCount := 0,
                      dim_totalToFetch := length needed\<rparr>,
                  Some \<lparr>dim_run_bggIds = bggIds, dim_run_needed = needed\<rparr>)))"

function dim_batches ::
  "dimension_cache json \<Rightarrow> runtime \<Rightarrow> service \<Rightarrow> int list \<Rightarrow> nat \<Rightarrow> dimension_state
   \<Rightarrow> dimension_state" where
  "dim_batches J X net needed i s =
     (if i < length needed then
        (let batch = take BATCH_SIZE (drop i needed);
             r = fetchBatchDimensions X net batch s
         in case fst r of
              Thrown \<Rightarrow> snd r
            | Null \<Rightarrow> snd r
            | Batch dims \<Rightarrow>
                (let s1 = (snd r)\<lparr>dimensionCache := dimensionCache (snd r) ++ dims\<rparr>;
                     s2 = s1\<lparr>dim_fetchedCount := min (i + BATCH_SIZE) (length needed)\<rparr>;
                     s3 = dim_saveCache J s2;
                     s4 = (if i + BATCH_SIZE < length needed
                           then s3\<lparr>sleeps := sleeps s3 @ [dim_DELAY_BETWEEN_BATCHES_MS]\<rparr>
                           else s3)
                 in dim_batches J X net needed (i + BATCH_SIZE) s4))
      else s)"
  by pat_completeness auto
termination
  by (relation "measure (\<lambda>(J, X, net, needed, i, s). length needed - i)")
     (auto simp: BATCH_SIZE_def)

definition dim_background ::
  "dimension_cache json \<Rightarrow> runtime \<Rightarrow> service \<Rightarrow> dimension_run \<Rightarrow> dimension_state
   \<Rightarrow> dimension_state" where
  "dim_background J X net run s =
     dim_saveCache J ((dim_batches J X net (dim_run_needed run) 0 s)\<lparr>dim_fetchInProgress := False\<rparr>)"

definition getCachedDimensions ::
  "dimension_cache json \<Rightarrow> dimension_state \<Rightarrow> dimension_cache \<times> dimension_state" where
  "getCachedDimensions J s =
     (let s' = (if card (dom (dimensionCache s)) = 0 then dim_loadCache J s else s)
      in (dimensionCache s', s'))"

definition dim_initial :: "filesystem \<Rightarrow> dimension_state" where
  "dim_initial f =
     \<lparr>fs = f, requests = [], sleeps = [], dimensionCache = Map.empty,
      dim_fetchInProgress = False, dim_fetchedCount = 0, dim_totalToFetch = 0\<rparr>"

inductive dim_process ::
  "dimension_cache json \<Rightarrow> runtime \<Rightarrow> service \<Rightarrow> dimension_state \<times> dimension_run list \<Rightarrow> bool"
  for J X net where
  dim_boot: "dim_process J X net (dim_initial f, [])"
| dim_start:
    "dim_process J X net (s, active) \<Longrightarrow>
     dim_process J X net
       (fst (dim_startBackgroundFetch J bggIds s),
        active @ launched (snd (dim_startBackgroundFetch J bggIds s)))"
| dim_finish:
    "dim_process J X net (s, active) \<Longrightarrow> run \<in> set active \<Longrightarrow>
     dim_process J X net (dim_background J X net run s, remove1 run active)"
| dim_read:
    "dim_process J X net (s, active) \<Longrightarrow>
     dim_process J X net (snd (getCachedDimensions J s), active)"

section \<open>The queue builder: src/lib/state.svelte.ts\<close>

text \<open>
  \<open>Array.prototype.sort\<close> with a comparator is stable; a comparator result that is NaN
  counts as 0.  For a consistent comparator the result is the one of a stable insertion
  sort, which is what \<open>sort_by\<close> computes.  (With an inconsistent comparator the order is
  left to the runtime.)
\<close>

fun insert_by :: "('a \<Rightarrow> 'a \<Rightarrow> 'b::{linorder, zero}) \<Rightarrow> 'a \<Rightarrow> 'a list \<Rightarrow> 'a list" where
  "insert_by cmp x [] = [x]"
| "insert_by cmp x (y # ys) = (if cmp x y \<le> 0 then x # y # ys else y # insert_by cmp x ys)"

definition sort_by :: "('a \<Rightarrow> 'a \<Rightarrow> 'b::{linorder, zero}) \<Rightarrow> 'a list \<Rightarrow> 'a list" where
  "sort_by cmp xs = foldr (insert_by cmp) xs []"









section \<open>src/lib/server/persistence.ts: how a decision file is written\<close>

text \<open>
  The last two statements of \<open>saveDecision\<close> and of \<open>deleteDecision\<close>, under the comment
  "Atomic write: temp file then rename": the serialised decisions go to
  \<open>DECISIONS_FILE + '.tmp'\<close>, which is then renamed to \<open>DECISIONS_FILE\<close>.
\<close>

definition DECISIONS_FILE :: path where
  "DECISIONS_FILE = ''data/decisions.json''"

definition write_decisions :: "jsstring \<Rightarrow> filesystem \<Rightarrow> filesystem" where
  "write_decisions content f =
     (let tmp = DECISIONS_FILE @ ''.tmp''
      in rename tmp DECISIONS_FILE (writeFileSync tmp content f))"

section \<open>Vocabulary of the properties and concrete inputs\<close>

text \<open>The service answers its n-th request with the status \<open>st\<close>.\<close>

definition answered :: "service \<Rightarrow> nat \<Rightarrow> nat \<Rightarrow> bool" where
  "answered net n st = (case net n of Response st' xml \<Rightarrow> st' = st | NetworkError \<Rightarrow> False)"

text \<open>
  An empty data directory, and small instances of the runtime's functions: a JSON pair
  that knows the empty cache and the cache with the one key 822, and regular expressions
  that match nothing.
\<close>

definition empty_disk :: filesystem where
  "empty_disk = \<lparr>dirs = {}, files = Map.empty, journal = []\<rparr>"

definition J0 :: "expansion_cache json" where
  "J0 = \<lparr>stringify = (\<lambda>c. case c 822 of None \<Rightarrow> js ''{}'' | Some links \<Rightarrow> js ''{822:[]}''),
          parse = (\<lambda>raw. if raw = js ''{}'' then Some Map.empty
                          else if raw = js ''{822:[]}'' then Some [822 \<mapsto> []]
                          else None)\<rparr>"

definition Jd0 :: "dimension_cache json" where
  "Jd0 = \<lparr>stringify = (\<lambda>c. case c 822 of None \<Rightarrow> js ''{}'' | Some box \<Rightarrow> js ''{822:1}''),
           parse = (\<lambda>raw. if raw = js ''{}'' then Some Map.empty
                           else if raw = js ''{822:1}''
                           then Some [822 \<mapsto> \<lparr>width = 1, length_d = 1, depth = 1, volume = 1\<rparr>]
                           else None)\<rparr>"

definition X0 :: runtime where
  "X0 = \<lparr>gameRegex = (\<lambda>xml. []), linkRegex = (\<lambda>inner. []), versionsRegex = (\<lambda>inner. None),
          versionRegex = (\<lambda>versions. []), widthRegex = (\<lambda>v. None), lengthRegex = (\<lambda>v. None),
          depthRegex = (\<lambda>v. None), parseInt = (\<lambda>digits. 0), parseFloat = (\<lambda>numeral. None),
          double_times = (*), double_divide = (/)\<rparr>"

definition always :: "nat \<Rightarrow> service" where
  "always st = (\<lambda>n. Response st [])"

text \<open>The expansion module after a first start request for the identifier 822.\<close>

definition running0 :: expansion_state where
  "running0 = fst (exp_startBackgroundFetch J0 [822] None (exp_initial empty_disk))"

definition run0 :: expansion_run where
  "run0 = \<lparr>run_bggIds = [822], run_games = None, run_needed = [822]\<rparr>"

definition dim_running0 :: dimension_state where
  "dim_running0 = fst (dim_startBackgroundFetch Jd0 [822] (dim_initial empty_disk))"

definition dim_run0 :: dimension_run where
  "dim_run0 = \<lparr>dim_run_bggIds = [822], dim_run_needed = [822]\<rparr>"

text \<open>Three games, and the expansion module after a start request that names two of them.\<close>

definition carcassonne :: Game where
  "carcassonne = \<lparr>bggId = 822, name = js ''Carcassonne'', dateAdded = [], playCount = 0,
                   lastPlayed = None, userRating = None\<rparr>"

definition hunters :: Game where
  "hunters = \<lparr>bggId = 4390, name = js ''Carcassonne: Hunters and Gatherers'', dateAdded = [],
               playCount = 0, lastPlayed = None, userRating = None\<rparr>"

definition catan :: Game where
  "catan = \<lparr>bggId = 13, name = js ''Catan'', dateAdded = [], playCount = 0,
             lastPlayed = None, userRating = None\<rparr>"

definition running1 :: expansion_state where
  "running1 =
     fst (exp_startBackgroundFetch J0 [822, 4390] (Some [carcassonne, hunters, catan])
            (exp_initial empty_disk))"

definition run1 :: expansion_run where
  "run1 = \<lparr>run_bggIds = [822, 4390], run_games = Some [carcassonne, hunters, catan],
            run_needed = [822, 4390]\<rparr>"














































section \<open>Status reads\<close>

text \<open>
  C9, as amended: a status read of the expansion dataset returns the five properties
  inProgress, fetched, total, cached and method; a status read of the dimension dataset
  returns the four properties inProgress, fetched, total and cached, and no method.  Each
  value is computed from the module's current variables.
\<close>

theorem getFetchStatus_properties:
  "map fst (exp_getFetchStatus s) = [''inProgress'', ''fetched'', ''total'', ''cached'', ''method'']
   \<and> map snd (exp_getFetchStatus s) =
       [VBool (fetchInProgress s), VNum (fetchedCount s), VNum (totalToFetch s),
        VNum (card (dom (expansionCache s))), VMethod (usedMethod s)]
   \<and> map fst (dim_getFetchStatus d) = [''inProgress'', ''fetched'', ''total'', ''cached'']
   \<and> map snd (dim_getFetchStatus d) =
       [VBool (dim_fetchInProgress d), VNum (dim_fetchedCount d), VNum (dim_totalToFetch d),
        VNum (card (dom (dimensionCache d)))]"
  by (simp add: exp_getFetchStatus_def dim_getFetchStatus_def)

text \<open>
  C9 as stated fails for the dimension dataset: the status object of a freshly started
  module has no property named method.
\<close>

theorem dim_status_has_no_method:
  "''method'' \<notin> set (map fst (dim_getFetchStatus (dim_initial empty_disk)))"
  by (simp add: dim_getFetchStatus_def)

section \<open>What the operations leave alone\<close>

lemma exp_fetch_frame_from:
  "snd (fetchBatchExpansions_from X net ids a s) =
   s\<lparr>requests := requests (snd (fetchBatchExpansions_from X net ids a s)),
     sleeps := sleeps (snd (fetchBatchExpansions_from X net ids a s))\<rparr>"
proof (induction X net ids a s rule: fetchBatchExpansions_from.induct)
  case (1 X net ids attempt s)
  show ?case
  proof (cases "attempt \<le> length backoff")
    case False
    then show ?thesis by (subst (1 2 3) fetchBatchExpansions_from.simps) simp
  next
    case le: True
    show ?thesis
    proof (cases "net (length (requests s))")
      case NetworkError
      then show ?thesis
        using le by (subst (1 2 3) fetchBatchExpansions_from.simps) (simp add: Let_def)
    next
      case (Response st xml)
      show ?thesis
      proof (cases "st \<noteq> 200 \<and> st \<noteq> 401 \<and> st = 202 \<and> attempt < length backoff")
        case False
        then show ?thesis using le Response
          by (subst (1 2 3) fetchBatchExpansions_from.simps) (auto simp: Let_def)
      next
        case True
        let ?s1 = "s\<lparr>requests := requests s @ [ids], sleeps := sleeps s @ [backoff ! attempt]\<rparr>"
        have step: "fetchBatchExpansions_from X net ids attempt s =
                    fetchBatchExpansions_from X net ids (attempt + 1) ?s1"
          using le Response True by (subst fetchBatchExpansions_from.simps) (simp add: Let_def)
        have "snd (fetchBatchExpansions_from X net ids (attempt + 1) ?s1) =
              ?s1\<lparr>requests := requests (snd (fetchBatchExpansions_from X net ids (attempt + 1) ?s1)),
                   sleeps := sleeps (snd (fetchBatchExpansions_from X net ids (attempt + 1) ?s1))\<rparr>"
          using "1.IH"[OF le refl refl Response] True by simp
        then show ?thesis unfolding step by simp
      qed
    qed
  qed
qed

lemma exp_fetch_frame:
  "snd (fetchBatchExpansions X net ids s) =
   s\<lparr>requests := requests (snd (fetchBatchExpansions X net ids s)),
     sleeps := sleeps (snd (fetchBatchExpansions X net ids s))\<rparr>"
  unfolding fetchBatchExpansions_def by (rule exp_fetch_frame_from)

lemma exp_fetch_keeps:
  fixes s :: expansion_state
  shows "expansionCache (snd (fetchBatchExpansions X net ids s)) = expansionCache s"
    and "fetchInProgress (snd (fetchBatchExpansions X net ids s)) = fetchInProgress s"
    and "fetchedCount (snd (fetchBatchExpansions X net ids s)) = fetchedCount s"
    and "totalToFetch (snd (fetchBatchExpansions X net ids s)) = totalToFetch s"
    and "usedMethod (snd (fetchBatchExpansions X net ids s)) = usedMethod s"
    and "fs (snd (fetchBatchExpansions X net ids s)) = fs s"
  by (subst exp_fetch_frame, simp)+

lemma exp_saveCache_keeps [simp]:
  "expansionCache (exp_saveCache J s) = expansionCache s"
  "fetchInProgress (exp_saveCache J s) = fetchInProgress s"
  "fetchedCount (exp_saveCache J s) = fetchedCount s"
  "totalToFetch (exp_saveCache J s) = totalToFetch s"
  "usedMethod (exp_saveCache J s) = usedMethod s"
  "requests (exp_saveCache J s) = requests s"
  "sleeps (exp_saveCache J s) = sleeps s"
  by (simp_all add: exp_saveCache_def)

lemma exp_saveCache_file:
  "files (fs (exp_saveCache J s)) exp_CACHE_PATH = Some (stringify J (expansionCache s))"
  by (simp add: exp_saveCache_def writeFileSync_def)

lemma exp_loadCache_keeps [simp]:
  "fetchInProgress (exp_loadCache J s) = fetchInProgress s"
  "fetchedCount (exp_loadCache J s) = fetchedCount s"
  "totalToFetch (exp_loadCache J s) = totalToFetch s"
  "usedMethod (exp_loadCache J s) = usedMethod s"
  "requests (exp_loadCache J s) = requests s"
  "sleeps (exp_loadCache J s) = sleeps s"
  "fs (exp_loadCache J s) = fs s"
  by (simp_all add: exp_loadCache_def split: option.splits)

lemma dim_loadCache_keeps [simp]:
  "dim_fetchInProgress (dim_loadCache J s) = dim_fetchInProgress s"
  "dim_fetchedCount (dim_loadCache J s) = dim_fetchedCount s"
  "dim_totalToFetch (dim_loadCache J s) = dim_totalToFetch s"
  "fs (dim_loadCache J s) = fs s"
  by (simp_all add: dim_loadCache_def split: option.splits)

lemma merge_nameMatches_apply:
  "merge_nameMatches nm ids c i =
   (if i \<in> set ids then Some (case nm i of None \<Rightarrow> [] | Some links \<Rightarrow> links) else c i)"
  unfolding merge_nameMatches_def
  by (induction ids arbitrary: c) auto

section \<open>The single-flight guard\<close>

lemma exp_background_idle: "\<not> fetchInProgress (exp_background J X net run s)"
  by (simp add: exp_background_def Let_def)

lemma dim_background_idle: "\<not> dim_fetchInProgress (dim_background J X net run s)"
  by (simp add: dim_background_def dim_saveCache_def)

lemma exp_start_cases:
  "exp_startBackgroundFetch J bggIds games s = (s', r) \<Longrightarrow>
   (fetchInProgress s \<and> s' = s \<and> r = None) \<or>
   (\<not> fetchInProgress s \<and> \<not> fetchInProgress s' \<and> r = None) \<or>
   (\<not> fetchInProgress s \<and> fetchInProgress s' \<and> r \<noteq> None)"
  by (auto simp: exp_startBackgroundFetch_def Let_def split: if_splits)

lemma dim_start_cases:
  "dim_startBackgroundFetch J bggIds s = (s', r) \<Longrightarrow>
   (dim_fetchInProgress s \<and> s' = s \<and> r = None) \<or>
   (\<not> dim_fetchInProgress s \<and> \<not> dim_fetchInProgress s' \<and> r = None) \<or>
   (\<not> dim_fetchInProgress s \<and> dim_fetchInProgress s' \<and> r \<noteq> None)"
  by (auto simp: dim_startBackgroundFetch_def Let_def split: if_splits)

lemma exp_single_flight:
  "exp_process J X net p \<Longrightarrow>
   length (snd p) \<le> 1 \<and> (fetchInProgress (fst p) \<longleftrightarrow> snd p \<noteq> [])"
proof (induction rule: exp_process.induct)
  case (exp_boot f)
  show ?case by (simp add: exp_initial_def)
next
  case (exp_start s active bggIds games)
  obtain s' r where sr: "exp_startBackgroundFetch J bggIds games s = (s', r)" by force
  from exp_start_cases[OF sr] exp_start.IH show ?case
    by (auto simp: sr launched_def split: option.splits)
next
  case (exp_finish s active run)
  then have "active = [run]" by (cases active) auto
  then show ?case by (simp add: exp_background_idle)
next
  case (exp_read s active)
  then show ?case by (simp add: getCachedExpansions_def Let_def)
qed

lemma dim_single_flight:
  "dim_process J X net p \<Longrightarrow>
   length (snd p) \<le> 1 \<and> (dim_fetchInProgress (fst p) \<longleftrightarrow> snd p \<noteq> [])"
proof (induction rule: dim_process.induct)
  case (dim_boot f)
  show ?case by (simp add: dim_initial_def)
next
  case (dim_start s active bggIds)
  obtain s' r where sr: "dim_startBackgroundFetch J bggIds s = (s', r)" by force
  from dim_start_cases[OF sr] dim_start.IH show ?case
    by (auto simp: sr launched_def split: option.splits)
next
  case (dim_finish s active run)
  then have "active = [run]" by (cases active) auto
  then show ?case by (simp add: dim_background_idle)
next
  case (dim_read s active)
  then show ?case by (simp add: getCachedDimensions_def Let_def)
qed

lemma running0_eq:
  "exp_startBackgroundFetch J0 [822] None (exp_initial empty_disk) = (running0, Some run0)"
  by (simp add: running0_def run0_def exp_startBackgroundFetch_def exp_loadCache_def
      exp_initial_def empty_disk_def existsSync_def Let_def)

lemma dim_running0_eq:
  "dim_startBackgroundFetch Jd0 [822] (dim_initial empty_disk) = (dim_running0, Some dim_run0)"
  by (simp add: dim_running0_def dim_run0_def dim_startBackgroundFetch_def dim_loadCache_def
      dim_initial_def empty_disk_def existsSync_def Let_def)

text \<open>
  C8: for either dataset, a start request made while a run is in progress changes nothing:
  the state (so total, fetched and the cache) is returned as it was and no run is launched.
  Hence, in every state the process of a module can reach, at most one run is active, and
  one is active exactly when the in-progress flag is set.
\<close>

theorem start_while_running_is_noop:
  "(fetchInProgress s \<longrightarrow> exp_startBackgroundFetch J bggIds games s = (s, None))
   \<and> (dim_fetchInProgress d \<longrightarrow> dim_startBackgroundFetch Jd bggIds d = (d, None))
   \<and> (exp_process J X net (s', active) \<longrightarrow>
        length active \<le> 1 \<and> (fetchInProgress s' \<longleftrightarrow> active \<noteq> []))
   \<and> (dim_process Jd X net (d', dactive) \<longrightarrow>
        length dactive \<le> 1 \<and> (dim_fetchInProgress d' \<longleftrightarrow> dactive \<noteq> []))"
  using exp_single_flight[of J X net "(s', active)"] dim_single_flight[of Jd X net "(d', dactive)"]
  by (simp add: exp_startBackgroundFetch_def dim_startBackgroundFetch_def)

theorem start_while_running_is_noop_witness:
  "fetchInProgress running0
   \<and> exp_startBackgroundFetch J0 [822, 4390] None running0 = (running0, None)
   \<and> dim_fetchInProgress dim_running0
   \<and> dim_startBackgroundFetch Jd0 [822, 4390] dim_running0 = (dim_running0, None)
   \<and> exp_process J0 X0 (always 401) (running0, [run0])
   \<and> length [run0] \<le> 1
   \<and> dim_process Jd0 X0 (always 401) (dim_running0, [dim_run0])
   \<and> length [dim_run0] \<le> 1"
proof -
  have e: "exp_process J0 X0 (always 401) (running0, [run0])"
    using exp_start[OF exp_boot[where f = empty_disk and J = J0 and X = X0
            and net = "always 401"], where bggIds = "[822]" and games = None]
    by (simp add: running0_eq launched_def)
  have d: "dim_process Jd0 X0 (always 401) (dim_running0, [dim_run0])"
    using dim_start[OF dim_boot[where f = empty_disk and J = Jd0 and X = X0
            and net = "always 401"], where bggIds = "[822]"]
    by (simp add: dim_running0_eq launched_def)
  have fe: "fetchInProgress running0"
    using exp_start_cases[OF running0_eq] by simp
  have fd: "dim_fetchInProgress dim_running0"
    using dim_start_cases[OF dim_running0_eq] by simp
  from start_while_running_is_noop[of running0 J0 "[822, 4390]" None dim_running0 Jd0
         X0 "always 401" running0 "[run0]" dim_running0 "[dim_run0]"] e d fe fd
  show ?thesis by simp
qed

section \<open>The expansion run after an unauthorized trial batch\<close>

lemma exp_start_launch:
  assumes "exp_startBackgroundFetch J bggIds games s0 = (s1, Some run)"
  shows "\<not> fetchInProgress s0"
    and "s1 = (exp_loadCache J s0)\<lparr>fetchInProgress := True, fetchedCount := 0,
                 totalToFetch := length (run_needed run)\<rparr>"
    and "run = \<lparr>run_bggIds = bggIds, run_games = games,
                 run_needed = filter (\<lambda>id. expansionCache (exp_loadCache J s0) id = None) bggIds\<rparr>"
    and "run_needed run \<noteq> []"
  using assms by (auto simp: exp_startBackgroundFetch_def Let_def split: if_splits)

lemma exp_background_null:
  assumes "fst (fetchBatchExpansions X net (testBatch (run_needed run)) s) = Null"
  shows "exp_background J X net run s =
     (let s1 = snd (fetchBatchExpansions X net (testBatch (run_needed run)) s);
          s2 = (case run_games run of
                  None \<Rightarrow> s1
                | Some games \<Rightarrow>
                    if length games > 0 then
                      s1\<lparr>expansionCache :=
                            merge_nameMatches (analyzeByNamePrefix games)
                              (run_bggIds run) (expansionCache s1),
                          usedMethod := NameMatch\<rparr>
                    else s1)
      in exp_saveCache J
           ((exp_saveCache J (s2\<lparr>fetchedCount := totalToFetch s2\<rparr>))\<lparr>fetchInProgress := False\<rparr>))"
  using assms by (simp add: exp_background_def Let_def)

lemma trial_401:
  assumes "net (length (requests s)) = Response 401 xml"
  shows "fst (fetchBatchExpansions X net ids s) = Null"
  using assms unfolding fetchBatchExpansions_def
  by (subst fetchBatchExpansions_from.simps) (simp add: Let_def backoff_def)

lemma analyze_three_games:
  "analyzeByNamePrefix [carcassonne, hunters, catan] =
   [4390 \<mapsto> [\<lparr>link_bggId = 822, link_name = js ''Carcassonne''\<rparr>]]"
  by (simp add: analyzeByNamePrefix_def flag_group_def link_to_def collect_game_def hunters_def
      carcassonne_def catan_def indexOf_def js_def substring_def trim_def toLowerCase_def
      isWhiteSpace_def push_group_def Let_def)

lemma running1_eq:
  "exp_startBackgroundFetch J0 [822, 4390] (Some [carcassonne, hunters, catan])
     (exp_initial empty_disk) = (running1, Some run1)"
  by (simp add: running1_def run1_def exp_startBackgroundFetch_def exp_loadCache_def
      exp_initial_def empty_disk_def existsSync_def Let_def)

text \<open>
  C1: when a start request with a non-empty item list launches a run and the trial batch of
  that run returns null (Unauthorized), the run ends with the cache equal to the loaded
  cache overwritten, for every requested identifier, by the heuristic links of that
  identifier or the empty list; so every requested identifier is a key of the cache.  The
  method is name-match, the cache file holds the serialised cache, the run is no longer in
  progress, and no request follows the trial batch.
\<close>

theorem unauthorized_trial_uses_name_match:
  assumes start: "exp_startBackgroundFetch J bggIds (Some games) s0 = (s1, Some run)"
    and games: "games \<noteq> []"
    and trial: "fst (fetchBatchExpansions X net (testBatch (run_needed run)) s1) = Null"
  shows "let s' = exp_background J X net run s1 in
     expansionCache s' =
       merge_nameMatches (analyzeByNamePrefix games) bggIds (expansionCache (exp_loadCache J s0))
     \<and> (\<forall>id\<in>set bggIds. expansionCache s' id =
            Some (case analyzeByNamePrefix games id of None \<Rightarrow> [] | Some links \<Rightarrow> links))
     \<and> set bggIds \<subseteq> dom (expansionCache s')
     \<and> usedMethod s' = NameMatch
     \<and> files (fs s') exp_CACHE_PATH = Some (stringify J (expansionCache s'))
     \<and> \<not> fetchInProgress s'
     \<and> fetchedCount s' = totalToFetch s'
     \<and> requests s' = requests (snd (fetchBatchExpansions X net (testBatch (run_needed run)) s1))"
proof -
  note L = exp_start_launch[OF start]
  have rg: "run_games run = Some games" and rb: "run_bggIds run = bggIds"
    using L(3) by simp_all
  have c1: "expansionCache s1 = expansionCache (exp_loadCache J s0)"
    using L(2) by simp
  show ?thesis
    using games
    by (simp add: exp_background_null[OF trial] Let_def rg rb exp_fetch_keeps c1
        exp_saveCache_file merge_nameMatches_apply subset_iff dom_def)
qed

theorem unauthorized_trial_uses_name_match_witness:
  "exp_startBackgroundFetch J0 [822, 4390] (Some [carcassonne, hunters, catan])
     (exp_initial empty_disk) = (running1, Some run1)
   \<and> [carcassonne, hunters, catan] \<noteq> []
   \<and> fst (fetchBatchExpansions X0 (always 401) (testBatch (run_needed run1)) running1) = Null
   \<and> expansionCache (exp_background J0 X0 (always 401) run1 running1) 822 = Some []
   \<and> expansionCache (exp_background J0 X0 (always 401) run1 running1) 4390
        = Some [\<lparr>link_bggId = 822, link_name = js ''Carcassonne''\<rparr>]
   \<and> usedMethod (exp_background J0 X0 (always 401) run1 running1) = NameMatch"
proof -
  have h2: "[carcassonne, hunters, catan] \<noteq> []" by simp
  have h3: "fst (fetchBatchExpansions X0 (always 401) (testBatch (run_needed run1)) running1) = Null"
    by (rule trial_401[where xml = "[]"]) (simp add: always_def)
  from unauthorized_trial_uses_name_match[OF running1_eq h2 h3] running1_eq h3
  show ?thesis
    by (simp add: Let_def analyze_three_games merge_nameMatches_apply)
qed

text \<open>
  C10: when a start request without an item list (or with an empty one) launches a run
  while the method is none, and the trial batch returns null (Unauthorized), the run ends
  with the method still none and the cache as it was loaded, so none of the needed
  identifiers is a key; fetched equals total, which is the positive number of needed
  identifiers, and a status read reports inProgress false with fetched equal to total.
\<close>

theorem unauthorized_trial_without_items:
  assumes start: "exp_startBackgroundFetch J bggIds games s0 = (s1, Some run)"
    and games: "games = None \<or> games = Some []"
    and trial: "fst (fetchBatchExpansions X net (testBatch (run_needed run)) s1) = Null"
    and fresh: "usedMethod s0 = NoMethod"
  shows "let s' = exp_background J X net run s1 in
     usedMethod s' = NoMethod
     \<and> expansionCache s' = expansionCache (exp_loadCache J s0)
     \<and> (\<forall>id\<in>set (run_needed run). expansionCache s' id = None)
     \<and> fetchedCount s' = totalToFetch s'
     \<and> totalToFetch s' = length (run_needed run)
     \<and> 0 < totalToFetch s'
     \<and> exp_getFetchStatus s' =
         [(''inProgress'', VBool False),
          (''fetched'', VNum (length (run_needed run))),
          (''total'', VNum (length (run_needed run))),
          (''cached'', VNum (card (dom (expansionCache (exp_loadCache J s0))))),
          (''method'', VMethod NoMethod)]"
proof -
  note L = exp_start_launch[OF start]
  have rg: "run_games run = games" using L(3) by simp
  have c1: "expansionCache s1 = expansionCache (exp_loadCache J s0)"
    and t1: "totalToFetch s1 = length (run_needed run)"
    and m1: "usedMethod s1 = NoMethod"
    using L(2) fresh by simp_all
  have none: "\<forall>id\<in>set (run_needed run). expansionCache (exp_loadCache J s0) id = None"
    by (subst L(3)) simp
  show ?thesis
    using games L(4) none
    by (auto simp: exp_background_null[OF trial] Let_def rg exp_fetch_keeps c1 t1 m1
        exp_getFetchStatus_def)
qed

theorem unauthorized_trial_without_items_witness:
  "exp_startBackgroundFetch J0 [822] None (exp_initial empty_disk) = (running0, Some run0)
   \<and> fst (fetchBatchExpansions X0 (always 401) (testBatch (run_needed run0)) running0) = Null
   \<and> usedMethod (exp_initial empty_disk) = NoMethod
   \<and> usedMethod (exp_background J0 X0 (always 401) run0 running0) = NoMethod
   \<and> expansionCache (exp_background J0 X0 (always 401) run0 running0) 822 = None
   \<and> fetchedCount (exp_background J0 X0 (always 401) run0 running0) = 1
   \<and> totalToFetch (exp_background J0 X0 (always 401) run0 running0) = 1"
proof -
  have h3: "fst (fetchBatchExpansions X0 (always 401) (testBatch (run_needed run0)) running0) = Null"
    by (rule trial_401[where xml = "[]"]) (simp add: always_def)
  have h4: "usedMethod (exp_initial empty_disk) = NoMethod" by (simp add: exp_initial_def)
  from unauthorized_trial_without_items[OF running0_eq _ h3 h4] running0_eq h3 h4
  show ?thesis
    by (simp add: Let_def run0_def exp_loadCache_def exp_initial_def empty_disk_def existsSync_def)
qed

section \<open>The catalog clients\<close>

lemma exp_retry_chain:
  "a + k \<le> length backoff \<Longrightarrow> (\<forall>j<k. answered net (length (requests s) + j) 202) \<Longrightarrow>
   fetchBatchExpansions_from X net ids a s =
   fetchBatchExpansions_from X net ids (a + k)
     (s\<lparr>requests := requests s @ replicate k ids, sleeps := sleeps s @ take k (drop a backoff)\<rparr>)"
proof (induction k arbitrary: a s)
  case 0
  then show ?case by simp
next
  case (Suc k)
  from Suc.prems have a3: "a < length backoff" by simp
  from Suc.prems(2) have "answered net (length (requests s)) 202" by force
  then obtain xml where r: "net (length (requests s)) = Response 202 xml"
    by (auto simp: answered_def split: http_response.splits)
  let ?s1 = "s\<lparr>requests := requests s @ [ids], sleeps := sleeps s @ [backoff ! a]\<rparr>"
  have step: "fetchBatchExpansions_from X net ids a s = fetchBatchExpansions_from X net ids (Suc a) ?s1"
    using a3 r by (subst fetchBatchExpansions_from.simps) (simp add: Let_def)
  have later: "\<forall>j<k. answered net (length (requests ?s1) + j) 202"
    using Suc.prems(2) by (auto simp: less_Suc_eq_0_disj)
  have "fetchBatchExpansions_from X net ids (Suc a) ?s1 =
        fetchBatchExpansions_from X net ids (Suc a + k)
          (?s1\<lparr>requests := requests ?s1 @ replicate k ids,
                sleeps := sleeps ?s1 @ take k (drop (Suc a) backoff)\<rparr>)"
    using Suc.prems(1) later by (intro Suc.IH) simp
  moreover have "take (Suc k) (drop a backoff) = backoff ! a # take k (drop (Suc a) backoff)"
    using a3 by (simp add: Cons_nth_drop_Suc[symmetric])
  ultimately show ?case using step by (simp add: replicate_app_Cons_same)
qed

lemma exp_gives_up:
  assumes k: "k \<le> length backoff"
    and busy: "\<forall>j<k. answered net (length (requests s) + j) 202"
    and last: "net (length (requests s) + k) = Response st xml"
    and st: "st \<noteq> 200" "st \<noteq> 401" "st = 202 \<longrightarrow> k = length backoff"
  shows "fetchBatchExpansions X net ids s =
         (Batch Map.empty,
          s\<lparr>requests := requests s @ replicate (Suc k) ids, sleeps := sleeps s @ take k backoff\<rparr>)"
proof -
  let ?s = "s\<lparr>requests := requests s @ replicate k ids, sleeps := sleeps s @ take k backoff\<rparr>"
  have "fetchBatchExpansions X net ids s = fetchBatchExpansions_from X net ids k ?s"
    unfolding fetchBatchExpansions_def using exp_retry_chain[of 0 k net s X ids] k busy by simp
  also have "\<dots> = (Batch Map.empty, ?s\<lparr>requests := requests ?s @ [ids]\<rparr>)"
    using k last st by (subst fetchBatchExpansions_from.simps) (auto simp: Let_def)
  finally show ?thesis by (simp add: replicate_append_same)
qed

lemma exp_attempts_bound:
  "a \<le> length backoff \<Longrightarrow>
   \<exists>k. a + k \<le> length backoff \<and>
     requests (snd (fetchBatchExpansions_from X net ids a s)) = requests s @ replicate (Suc k) ids \<and>
     sleeps (snd (fetchBatchExpansions_from X net ids a s)) = sleeps s @ take k (drop a backoff)"
proof (induction "length backoff - a" arbitrary: a s)
  case 0
  then have a: "a = length backoff" by simp
  show ?case
    by (rule exI[of _ 0], subst (1 2) fetchBatchExpansions_from.simps)
       (simp add: a Let_def split: http_response.splits)
next
  case (Suc n)
  then have a3: "a < length backoff" by simp
  show ?case
  proof (cases "\<exists>xml. net (length (requests s)) = Response 202 xml")
    case True
    then obtain xml where r: "net (length (requests s)) = Response 202 xml" by blast
    let ?s1 = "s\<lparr>requests := requests s @ [ids], sleeps := sleeps s @ [backoff ! a]\<rparr>"
    have step: "fetchBatchExpansions_from X net ids a s = fetchBatchExpansions_from X net ids (Suc a) ?s1"
      using a3 r by (subst fetchBatchExpansions_from.simps) (simp add: Let_def)
    have "n = length backoff - Suc a" using Suc.hyps(2) by simp
    from Suc.hyps(1)[OF this, of ?s1] a3 obtain k where
      k: "Suc a + k \<le> length backoff"
         "requests (snd (fetchBatchExpansions_from X net ids (Suc a) ?s1)) = requests ?s1 @ replicate (Suc k) ids"
         "sleeps (snd (fetchBatchExpansions_from X net ids (Suc a) ?s1)) = sleeps ?s1 @ take k (drop (Suc a) backoff)"
      by auto
    have tk: "take (Suc k) (drop a backoff) = backoff ! a # take k (drop (Suc a) backoff)"
      using a3 by (simp add: Cons_nth_drop_Suc[symmetric])
    show ?thesis
      by (rule exI[of _ "Suc k"]) (use k tk step in \<open>simp add: replicate_app_Cons_same\<close>)
  next
    case False
    show ?thesis
      by (rule exI[of _ 0], subst (1 2) fetchBatchExpansions_from.simps)
         (use False a3 in \<open>auto simp: Let_def split: http_response.splits\<close>)
  qed
qed

lemma dim_retry_chain:
  "a + k \<le> length backoff \<Longrightarrow> (\<forall>j<k. answered net (length (requests s) + j) 202) \<Longrightarrow>
   fetchBatchDimensions_from X net ids a s =
   fetchBatchDimensions_from X net ids (a + k)
     (s\<lparr>requests := requests s @ replicate k ids, sleeps := sleeps s @ take k (drop a backoff)\<rparr>)"
proof (induction k arbitrary: a s)
  case 0
  then show ?case by simp
next
  case (Suc k)
  from Suc.prems have a3: "a < length backoff" by simp
  from Suc.prems(2) have "answered net (length (requests s)) 202" by force
  then obtain xml where r: "net (length (requests s)) = Response 202 xml"
    by (auto simp: answered_def split: http_response.splits)
  let ?s1 = "s\<lparr>requests := requests s @ [ids], sleeps := sleeps s @ [backoff ! a]\<rparr>"
  have step: "fetchBatchDimensions_from X net ids a s = fetchBatchDimensions_from X net ids (Suc a) ?s1"
    using a3 r by (subst fetchBatchDimensions_from.simps) (simp add: Let_def)
  have later: "\<forall>j<k. answered net (length (requests ?s1) + j) 202"
    using Suc.prems(2) by (auto simp: less_Suc_eq_0_disj)
  have "fetchBatchDimensions_from X net ids (Suc a) ?s1 =
        fetchBatchDimensions_from X net ids (Suc a + k)
          (?s1\<lparr>requests := requests ?s1 @ replicate k ids,
                sleeps := sleeps ?s1 @ take k (drop (Suc a) backoff)\<rparr>)"
    using Suc.prems(1) later by (intro Suc.IH) simp
  moreover have "take (Suc k) (drop a backoff) = backoff ! a # take k (drop (Suc a) backoff)"
    using a3 by (simp add: Cons_nth_drop_Suc[symmetric])
  ultimately show ?case using step by (simp add: replicate_app_Cons_same)
qed

lemma dim_gives_up:
  assumes k: "k \<le> length backoff"
    and busy: "\<forall>j<k. answered net (length (requests s) + j) 202"
    and last: "net (length (requests s) + k) = Response st xml"
    and st: "st \<noteq> 200" "st \<noteq> 401" "st = 202 \<longrightarrow> k = length backoff"
  shows "fetchBatchDimensions X net ids s =
         (Batch Map.empty,
          s\<lparr>requests := requests s @ replicate (Suc k) ids, sleeps := sleeps s @ take k backoff\<rparr>)"
proof -
  let ?s = "s\<lparr>requests := requests s @ replicate k ids, sleeps := sleeps s @ take k backoff\<rparr>"
  have "fetchBatchDimensions X net ids s = fetchBatchDimensions_from X net ids k ?s"
    unfolding fetchBatchDimensions_def using dim_retry_chain[of 0 k net s X ids] k busy by simp
  also have "\<dots> = (Batch Map.empty, ?s\<lparr>requests := requests ?s @ [ids]\<rparr>)"
    using k last st by (subst fetchBatchDimensions_from.simps) (auto simp: Let_def)
  finally show ?thesis by (simp add: replicate_append_same)
qed

lemma dim_attempts_bound:
  "a \<le> length backoff \<Longrightarrow>
   \<exists>k. a + k \<le> length backoff \<and>
     requests (snd (fetchBatchDimensions_from X net ids a s)) = requests s @ replicate (Suc k) ids \<and>
     sleeps (snd (fetchBatchDimensions_from X net ids a s)) = sleeps s @ take k (drop a backoff)"
proof (induction "length backoff - a" arbitrary: a s)
  case 0
  then have a: "a = length backoff" by simp
  show ?case
    by (rule exI[of _ 0], subst (1 2) fetchBatchDimensions_from.simps)
       (simp add: a Let_def split: http_response.splits)
next
  case (Suc n)
  then have a3: "a < length backoff" by simp
  show ?case
  proof (cases "\<exists>xml. net (length (requests s)) = Response 202 xml")
    case True
    then obtain xml where r: "net (length (requests s)) = Response 202 xml" by blast
    let ?s1 = "s\<lparr>requests := requests s @ [ids], sleeps := sleeps s @ [backoff ! a]\<rparr>"
    have step: "fetchBatchDimensions_from X net ids a s = fetchBatchDimensions_from X net ids (Suc a) ?s1"
      using a3 r by (subst fetchBatchDimensions_from.simps) (simp add: Let_def)
    have "n = length backoff - Suc a" using Suc.hyps(2) by simp
    from Suc.hyps(1)[OF this, of ?s1] a3 obtain k where
      k: "Suc a + k \<le> length backoff"
         "requests (snd (fetchBatchDimensions_from X net ids (Suc a) ?s1)) = requests ?s1 @ replicate (Suc k) ids"
         "sleeps (snd (fetchBatchDimensions_from X net ids (Suc a) ?s1)) = sleeps ?s1 @ take k (drop (Suc a) backoff)"
      by auto
    have tk: "take (Suc k) (drop a backoff) = backoff ! a # take k (drop (Suc a) backoff)"
      using a3 by (simp add: Cons_nth_drop_Suc[symmetric])
    show ?thesis
      by (rule exI[of _ "Suc k"]) (use k tk step in \<open>simp add: replicate_app_Cons_same\<close>)
  next
    case False
    show ?thesis
      by (rule exI[of _ 0], subst (1 2) fetchBatchDimensions_from.simps)
         (use False a3 in \<open>auto simp: Let_def split: http_response.splits\<close>)
  qed
qed

text \<open>
  C4: for any batch, either catalog client makes at most three retries, that is at most
  four requests, and the delays it awaits are the first of 2000, 4000 and 8000 ms, one
  before each retry.  If the service answers 202 to k requests (k at most 3) and then
  answers with a status other than 200 and 401, which may be 202 only when the three
  retries are used up, the client returns the empty mapping, not null and not an
  exception, right after that answer: it has made k + 1 requests and awaited the first k
  delays.
\<close>

theorem catalog_client_retries_then_gives_empty:
  "(\<exists>k\<le>3. requests (snd (fetchBatchExpansions X net ids s)) = requests s @ replicate (Suc k) ids
        \<and> sleeps (snd (fetchBatchExpansions X net ids s)) = sleeps s @ take k [2000, 4000, 8000])
   \<and> (\<forall>k st xml.
         k \<le> 3 \<and> (\<forall>j<k. answered net (length (requests s) + j) 202)
         \<and> net (length (requests s) + k) = Response st xml
         \<and> st \<noteq> 200 \<and> st \<noteq> 401 \<and> (st = 202 \<longrightarrow> k = 3)
         \<longrightarrow> fetchBatchExpansions X net ids s =
               (Batch Map.empty,
                s\<lparr>requests := requests s @ replicate (Suc k) ids,
                  sleeps := sleeps s @ take k [2000, 4000, 8000]\<rparr>))
   \<and> (\<exists>k\<le>3. requests (snd (fetchBatchDimensions X net ids d)) = requests d @ replicate (Suc k) ids
        \<and> sleeps (snd (fetchBatchDimensions X net ids d)) = sleeps d @ take k [2000, 4000, 8000])
   \<and> (\<forall>k st xml.
         k \<le> 3 \<and> (\<forall>j<k. answered net (length (requests d) + j) 202)
         \<and> net (length (requests d) + k) = Response st xml
         \<and> st \<noteq> 200 \<and> st \<noteq> 401 \<and> (st = 202 \<longrightarrow> k = 3)
         \<longrightarrow> fetchBatchDimensions X net ids d =
               (Batch Map.empty,
                d\<lparr>requests := requests d @ replicate (Suc k) ids,
                  sleeps := sleeps d @ take k [2000, 4000, 8000]\<rparr>))"
proof -
  have b: "backoff = [2000, 4000, 8000]" "length backoff = 3"
    by (simp_all add: backoff_def)
  have e1: "\<exists>k\<le>3. requests (snd (fetchBatchExpansions X net ids s)) = requests s @ replicate (Suc k) ids
        \<and> sleeps (snd (fetchBatchExpansions X net ids s)) = sleeps s @ take k [2000, 4000, 8000]"
    using exp_attempts_bound[of 0 X net ids s]
    by (auto simp: fetchBatchExpansions_def b)
  have d1: "\<exists>k\<le>3. requests (snd (fetchBatchDimensions X net ids d)) = requests d @ replicate (Suc k) ids
        \<and> sleeps (snd (fetchBatchDimensions X net ids d)) = sleeps d @ take k [2000, 4000, 8000]"
    using dim_attempts_bound[of 0 X net ids d]
    by (auto simp: fetchBatchDimensions_def b)
  have e2: "fetchBatchExpansions X net ids s =
               (Batch Map.empty,
                s\<lparr>requests := requests s @ replicate (Suc k) ids,
                  sleeps := sleeps s @ take k [2000, 4000, 8000]\<rparr>)"
    if "k \<le> 3" "\<forall>j<k. answered net (length (requests s) + j) 202"
       "net (length (requests s) + k) = Response st xml"
       "st \<noteq> 200" "st \<noteq> 401" "st = 202 \<longrightarrow> k = 3" for k st xml
    using exp_gives_up[of k net s st xml X ids] that by (simp add: b)
  have d2: "fetchBatchDimensions X net ids d =
               (Batch Map.empty,
                d\<lparr>requests := requests d @ replicate (Suc k) ids,
                  sleeps := sleeps d @ take k [2000, 4000, 8000]\<rparr>)"
    if "k \<le> 3" "\<forall>j<k. answered net (length (requests d) + j) 202"
       "net (length (requests d) + k) = Response st xml"
       "st \<noteq> 200" "st \<noteq> 401" "st = 202 \<longrightarrow> k = 3" for k st xml
    using dim_gives_up[of k net d st xml X ids] that by (simp add: b)
  show ?thesis
    using e1 d1 e2 d2 by blast
qed

theorem catalog_client_retries_then_gives_empty_witness:
  "fetchBatchExpansions X0 (always 202) [822] (exp_initial empty_disk) =
     (Batch Map.empty,
      (exp_initial empty_disk)\<lparr>requests := [[822], [822], [822], [822]],
                                 sleeps := [2000, 4000, 8000]\<rparr>)
   \<and> fetchBatchDimensions X0 (always 202) [822] (dim_initial empty_disk) =
     (Batch Map.empty,
      (dim_initial empty_disk)\<lparr>requests := [[822], [822], [822], [822]],
                                 sleeps := [2000, 4000, 8000]\<rparr>)
   \<and> fetchBatchExpansions X0 (always 500) [822] (exp_initial empty_disk) =
     (Batch Map.empty, (exp_initial empty_disk)\<lparr>requests := [[822]], sleeps := []\<rparr>)"
proof -
  have busy: "\<forall>j<3. answered (always 202) (n + j) 202" for n
    by (simp add: answered_def always_def)
  have last: "always 202 (n + 3) = Response 202 []" for n
    by (simp add: always_def)
  note T = catalog_client_retries_then_gives_empty[of X0 "always 202" "[822]"
      "exp_initial empty_disk" "dim_initial empty_disk"]
  have e: "fetchBatchExpansions X0 (always 202) [822] (exp_initial empty_disk) =
     (Batch Map.empty,
      (exp_initial empty_disk)\<lparr>requests := requests (exp_initial empty_disk) @ replicate (Suc 3) [822],
         sleeps := sleeps (exp_initial empty_disk) @ take 3 [2000, 4000, 8000]\<rparr>)"
    using T[THEN conjunct2, THEN conjunct1, rule_format, of 3 202 "[]"] busy last by simp
  have d: "fetchBatchDimensions X0 (always 202) [822] (dim_initial empty_disk) =
     (Batch Map.empty,
      (dim_initial empty_disk)\<lparr>requests := requests (dim_initial empty_disk) @ replicate (Suc 3) [822],
         sleeps := sleeps (dim_initial empty_disk) @ take 3 [2000, 4000, 8000]\<rparr>)"
    using T[THEN conjunct2, THEN conjunct2, THEN conjunct2, rule_format, of 3 202 "[]"] busy last
    by simp
  have f: "fetchBatchExpansions X0 (always 500) [822] (exp_initial empty_disk) =
     (Batch Map.empty,
      (exp_initial empty_disk)\<lparr>requests := requests (exp_initial empty_disk) @ replicate (Suc 0) [822],
         sleeps := sleeps (exp_initial empty_disk) @ take 0 [2000, 4000, 8000]\<rparr>)"
    using catalog_client_retries_then_gives_empty[of X0 "always 500" "[822]"
      "exp_initial empty_disk" "dim_initial empty_disk",
      THEN conjunct2, THEN conjunct1, rule_format, of 0 500 "[]"]
    by (simp add: always_def)
  show ?thesis
    unfolding e d f by (simp add: exp_initial_def dim_initial_def numeral_3_eq_3)
qed

section \<open>The cache store on disk\<close>

text \<open>
  C5 (the code differs): a flush is \<open>ensureDir\<close> followed by one \<open>writeFileSync\<close> on the
  cache path itself.  The journal of a flush holds no write to another path and no rename,
  in either module, whereas the decision file of persistence.ts is written to a temporary
  path that is then renamed.
\<close>

theorem saveCache_writes_the_cache_file_in_place:
  "journal (fs (exp_saveCache J s)) =
     journal (fs s) @ (if existsSync (fs s) DATA_DIR then [] else [Mkdir DATA_DIR])
       @ [WriteFile exp_CACHE_PATH (stringify J (expansionCache s))]
   \<and> journal (fs (dim_saveCache Jd d)) =
     journal (fs d) @ (if existsSync (fs d) DATA_DIR then [] else [Mkdir DATA_DIR])
       @ [WriteFile dim_CACHE_PATH (stringify Jd (dimensionCache d))]
   \<and> journal (write_decisions content f) =
     journal f @ [WriteFile ''data/decisions.json.tmp'' content,
                  Rename ''data/decisions.json.tmp'' ''data/decisions.json'']"
  by (simp add: exp_saveCache_def dim_saveCache_def ensureDir_def writeFileSync_def mkdirSync_def
      write_decisions_def rename_def DECISIONS_FILE_def Let_def)



section \<open>The heuristic matcher on three games\<close>

text \<open>
  C2, as amended: for three games named Carcassonne, Carcassonne: Hunters and Gatherers and
  Catan, the first two with different identifiers, \<open>analyzeByNamePrefix\<close> returns the
  mapping with the single key of the second game, mapped to the one link to the first.
  The other two games are not keys of the result; it is the merge of the sync coordinator
  that records the empty list for each requested identifier the matcher left out.
\<close>

theorem analyzeByNamePrefix_flags_only_the_expansion:
  assumes "name g1 = js ''Carcassonne''"
    and "name g2 = js ''Carcassonne: Hunters and Gatherers''"
    and "name g3 = js ''Catan''"
    and "bggId g1 \<noteq> bggId g2"
  shows "analyzeByNamePrefix [g1, g2, g3] =
           [bggId g2 \<mapsto> [\<lparr>link_bggId = bggId g1, link_name = js ''Carcassonne''\<rparr>]]
         \<and> dom (analyzeByNamePrefix [g1, g2, g3]) = {bggId g2}
         \<and> (bggId g3 \<noteq> bggId g2 \<longrightarrow>
              merge_nameMatches (analyzeByNamePrefix [g1, g2, g3]) [bggId g1, bggId g2, bggId g3] c =
              c(bggId g1 \<mapsto> [],
                bggId g2 \<mapsto> [\<lparr>link_bggId = bggId g1, link_name = js ''Carcassonne''\<rparr>],
                bggId g3 \<mapsto> []))"
proof -
  have a: "analyzeByNamePrefix [g1, g2, g3] =
           [bggId g2 \<mapsto> [\<lparr>link_bggId = bggId g1, link_name = js ''Carcassonne''\<rparr>]]"
    using assms
    by (simp add: analyzeByNamePrefix_def flag_group_def link_to_def collect_game_def indexOf_def
        js_def substring_def trim_def toLowerCase_def isWhiteSpace_def push_group_def Let_def)
  show ?thesis
    unfolding a using assms(4) by (auto simp: merge_nameMatches_def fun_upd_twist)
qed

theorem analyzeByNamePrefix_flags_only_the_expansion_witness:
  "name carcassonne = js ''Carcassonne''
   \<and> name hunters = js ''Carcassonne: Hunters and Gatherers''
   \<and> name catan = js ''Catan''
   \<and> bggId carcassonne \<noteq> bggId hunters
   \<and> analyzeByNamePrefix [carcassonne, hunters, catan] =
        [4390 \<mapsto> [\<lparr>link_bggId = 822, link_name = js ''Carcassonne''\<rparr>]]
   \<and> dom (analyzeByNamePrefix [carcassonne, hunters, catan]) = {4390}"
proof -
  have h: "name carcassonne = js ''Carcassonne''"
    "name hunters = js ''Carcassonne: Hunters and Gatherers''"
    "name catan = js ''Catan''"
    "bggId carcassonne \<noteq> bggId hunters"
    by (simp_all add: carcassonne_def hunters_def catan_def)
  from analyzeByNamePrefix_flags_only_the_expansion[OF h]
  have "analyzeByNamePrefix [carcassonne, hunters, catan] =
           [bggId hunters \<mapsto> [\<lparr>link_bggId = bggId carcassonne, link_name = js ''Carcassonne''\<rparr>]]"
    and "dom (analyzeByNamePrefix [carcassonne, hunters, catan]) = {bggId hunters}"
    by simp_all
  moreover have "bggId hunters = 4390" "bggId carcassonne = 822"
    by (simp_all add: carcassonne_def hunters_def)
  ultimately show ?thesis using h by simp
qed

text \<open>
  C2 as stated fails: on the three games the result is not the mapping with all three
  keys, and Carcassonne (822) and Catan (13) are not keys of it.
\<close>

theorem analyzeByNamePrefix_omits_non_expansions:
  "analyzeByNamePrefix [carcassonne, hunters, catan] \<noteq>
     [822 \<mapsto> [], 4390 \<mapsto> [\<lparr>link_bggId = 822, link_name = js ''Carcassonne''\<rparr>], 13 \<mapsto> []]
   \<and> analyzeByNamePrefix [carcassonne, hunters, catan] 822 = None
   \<and> analyzeByNamePrefix [carcassonne, hunters, catan] 13 = None"
proof -
  have "[4390 \<mapsto> [\<lparr>link_bggId = 822, link_name = js ''Carcassonne''\<rparr>]] (822::int) \<noteq>
        [822 \<mapsto> [], 4390 \<mapsto> [\<lparr>link_bggId = 822, link_name = js ''Carcassonne''\<rparr>], 13 \<mapsto> []] 822"
    by simp
  then have "[4390 \<mapsto> [\<lparr>link_bggId = 822, link_name = js ''Carcassonne''\<rparr>]] \<noteq>
        [(822::int) \<mapsto> [], 4390 \<mapsto> [\<lparr>link_bggId = 822, link_name = js ''Carcassonne''\<rparr>], 13 \<mapsto> []]"
    by metis
  then show ?thesis
    by (simp add: analyze_three_games)
qed

section \<open>The dimension response parser\<close>

























section \<open>The queue builder in default mode\<close>

lemma set_insert_by [simp]: "set (insert_by cmp x ys) = insert x (set ys)"
  by (induction ys) auto

lemma mset_insert_by [simp]: "mset (insert_by cmp x ys) = add_mset x (mset ys)"
  by (induction ys) auto

lemma sort_by_simps [simp]:
  "sort_by cmp [] = []"
  "sort_by cmp (x # xs) = insert_by cmp x (sort_by cmp xs)"
  by (simp_all add: sort_by_def)


lemma set_sort_by [simp]: "set (sort_by cmp xs) = set xs"
  by (induction xs) simp_all
























end
